theory Spec2Isabelle
  imports Main "HOL-Library.Word" "HOL-Library.Monad_Syntax"
begin

unbundle bit_operations_syntax

section \<open>Endianess.h: byte swapping between host and network byte order\<close>

subsection \<open>Fixed-width types\<close>

text \<open>
  The header uses the platform typedefs \<open>uint8\<close> ... \<open>sint64\<close>, \<open>float32\<close> and
  \<open>float64\<close>. A value of each is modelled by its bit pattern, a word of that width. A signed
  value is read from its pattern in two's complement (\<open>sint\<close>), an unsigned one by \<open>uint\<close>;
  the signed and the unsigned specializations differ in the operations applied to the pattern
  (sign extension \<open>scast\<close> against zero extension \<open>ucast\<close>, arithmetic shift
  \<open>signed_drop_bit\<close> against logical shift \<open>drop_bit\<close>), as the compiled code does.
  A \<open>float32\<close> or \<open>float64\<close> is its IEEE-754 storage pattern; the code never does
  arithmetic on it, but it copies and returns it as a floating-point value, which the
  floating-point unit of the host may change (see below).

  The arithmetic types of the expressions: \<open>int\<close> and \<open>unsigned int\<close> have 32 bits,
  \<open>long\<close> and \<open>unsigned long\<close> 64 bits (the LP64 model of the \<open>__unix__\<close> branch; the
  32-bit \<open>long\<close> of the \<open>_WIN32\<close> branch is modelled further down), \<open>unsigned long long\<close>
  64 bits. Signed shifts compute the two's complement result: \<open><<\<close> keeps the low bits of
  the product, \<open>>>\<close> copies the sign bit; the operands for which the language leaves a
  signed \<open><<\<close> undefined are the subject of the checked operations further down. A conversion to a narrower type keeps the low bits; a
  conversion between a signed and an unsigned type of one width keeps the pattern and is
  not written.
\<close>

type_synonym uint8 = "8 word"
type_synonym uint16 = "16 word"
type_synonym sint16 = "16 word"
type_synonym uint32 = "32 word"
type_synonym sint32 = "32 word"
type_synonym uint64 = "64 word"
type_synonym sint64 = "64 word"
type_synonym float32 = "32 word"
type_synonym float64 = "64 word"

type_synonym c_int = "32 word"
type_synonym c_uint = "32 word"
type_synonym c_long = "64 word"
type_synonym c_ulong = "64 word"
type_synonym c_ulonglong = "64 word"

subsection \<open>Byte order and the bytes of an object\<close>

text \<open>The two values of the macro \<open>BYTE_ORDER\<close> that the header distinguishes.\<close>

datatype byte_order = LITTLE_ENDIAN | BIG_ENDIAN

text \<open>Byte \<open>i\<close> of a pattern, counted from the least significant end.\<close>

definition byte_at :: "'a::len word \<Rightarrow> nat \<Rightarrow> uint8" where
  "byte_at w i = ucast (drop_bit (8 * i) w)"

text \<open>The pattern whose bytes, from the least significant end, are the given ones.\<close>

fun of_bytes :: "uint8 list \<Rightarrow> 'a::len word" where
  "of_bytes [] = 0"
| "of_bytes (b # bs) = ucast b OR push_bit 8 (of_bytes bs)"

text \<open>
  \<open>reinterpret_cast< uint8* >(&x)\<close> views the \<open>sz\<close> bytes of the object \<open>x\<close> in address
  order: least significant byte first on a little-endian host, most significant first on a
  big-endian one. \<open>object_value\<close> reads the object back from its bytes.
\<close>

fun object_bytes :: "byte_order \<Rightarrow> nat \<Rightarrow> 'a::len word \<Rightarrow> uint8 list" where
  "object_bytes LITTLE_ENDIAN sz w = map (byte_at w) [0..<sz]"
| "object_bytes BIG_ENDIAN sz w = map (byte_at w) (rev [0..<sz])"

fun object_value :: "byte_order \<Rightarrow> uint8 list \<Rightarrow> 'a::len word" where
  "object_value LITTLE_ENDIAN bs = of_bytes bs"
| "object_value BIG_ENDIAN bs = of_bytes (rev bs)"

subsection \<open>The host\<close>

text \<open>
  Two facts about the machine the code runs on reach the floating-point specializations:
  the order in which it stores the bytes of an object, and what its floating-point unit does
  to a value that is copied or returned with a floating-point type. A unit that moves such
  values as plain bits (\<open>SSE\<close>, standing for every such unit) keeps the pattern. The x87
  unit of an i386 build, which the \<open>__unix__\<close> and the \<open>_WIN32\<close> branch both accept, loads
  the value into a register of extended precision and returns it in \<open>st(0)\<close>: loading a
  signalling NaN (exponent all ones, fraction not zero, top fraction bit clear) sets the
  top fraction bit, every other pattern is kept.
\<close>

datatype fpu = SSE | X87

datatype host = Host (storage_order: byte_order) (float_unit: fpu)

definition i386 :: host where
  "i386 = Host LITTLE_ENDIAN X87"

definition is_signalling_nan32 :: "float32 \<Rightarrow> bool" where
  "is_signalling_nan32 w \<longleftrightarrow>
     drop_bit 23 w AND 0xFF = 0xFF \<and> w AND 0x007FFFFF \<noteq> 0 \<and> \<not> bit w 22"

definition is_signalling_nan64 :: "float64 \<Rightarrow> bool" where
  "is_signalling_nan64 w \<longleftrightarrow>
     drop_bit 52 w AND 0x7FF = 0x7FF \<and> w AND 0x000FFFFFFFFFFFFF \<noteq> 0 \<and> \<not> bit w 51"

fun float32_move :: "fpu \<Rightarrow> float32 \<Rightarrow> float32" where
  "float32_move SSE w = w"
| "float32_move X87 w = (if is_signalling_nan32 w then w OR 0x00400000 else w)"

fun float64_move :: "fpu \<Rightarrow> float64 \<Rightarrow> float64" where
  "float64_move SSE w = w"
| "float64_move X87 w = (if is_signalling_nan64 w then w OR 0x0008000000000000 else w)"

subsection \<open>The specializations of \<open>swap_bytes\<close>\<close>

definition swap_bytes_u8 :: "uint8 \<Rightarrow> uint8" where
  "swap_bytes_u8 val = val"

text \<open>
  \<open>uint16\<close>: \<open>val\<close> is promoted to \<open>int\<close> (zero extension) before each shift, the mask
  is an \<open>unsigned int\<close>, and the assignment to \<open>temp\<close> narrows to 16 bits.
\<close>

definition swap_bytes_u16 :: "uint16 \<Rightarrow> uint16" where
  "swap_bytes_u16 val =
    (let temp = (0 :: uint16);
         temp = (ucast (signed_drop_bit 8 (ucast val :: c_int) AND (0x00FF :: c_uint)) :: uint16);
         temp = (ucast ((ucast temp :: c_uint)
                   OR (push_bit 8 (ucast val :: c_int) AND (0xFFFF :: c_uint))) :: uint16)
     in temp)"

text \<open>\<open>sint16\<close>: \<open>val\<close> and \<open>temp\<close> are promoted to \<open>int\<close> by sign extension.\<close>

definition swap_bytes_s16 :: "sint16 \<Rightarrow> sint16" where
  "swap_bytes_s16 val =
    (let temp = (0 :: sint16);
         temp = (scast (signed_drop_bit 8 (scast val :: c_int) AND (0x00FF :: c_int)) :: sint16);
         temp = (scast ((scast temp :: c_int)
                   OR (push_bit 8 (scast val :: c_int) AND (0xFFFF :: c_int))) :: sint16)
     in temp)"

text \<open>
  \<open>uint32\<close>: the shifts are done in \<open>unsigned int\<close>, the masks are \<open>unsigned long\<close>, so
  each shifted value is zero-extended to 64 bits, masked, and narrowed on assignment.
\<close>

definition swap_bytes_u32 :: "uint32 \<Rightarrow> uint32" where
  "swap_bytes_u32 val =
    (let temp = (0 :: uint32);
         temp = (ucast ((ucast (drop_bit 24 val) :: c_ulong) AND 0x000000FF) :: uint32);
         temp = (ucast ((ucast temp :: c_ulong)
                   OR ((ucast (push_bit 24 val) :: c_ulong) AND 0xFF000000)) :: uint32);
         temp = (ucast ((ucast temp :: c_ulong)
                   OR ((ucast (drop_bit 8 val) :: c_ulong) AND 0x0000FF00)) :: uint32);
         temp = (ucast ((ucast temp :: c_ulong)
                   OR ((ucast (push_bit 8 val) :: c_ulong) AND 0x00FF0000)) :: uint32)
     in temp)"

text \<open>
  \<open>sint32\<close>: the shifts are done in \<open>int\<close> (arithmetic to the right, wrapping to the
  left), the masks are \<open>long\<close>, so each shifted value and \<open>temp\<close> are sign-extended to
  64 bits before the mask and the bitwise or.
\<close>

definition swap_bytes_s32 :: "sint32 \<Rightarrow> sint32" where
  "swap_bytes_s32 val =
    (let temp = (0 :: sint32);
         temp = (scast ((scast (signed_drop_bit 24 val) :: c_long) AND 0x000000FF) :: sint32);
         temp = (scast ((scast temp :: c_long)
                   OR ((scast (push_bit 24 val) :: c_long) AND 0xFF000000)) :: sint32);
         temp = (scast ((scast temp :: c_long)
                   OR ((scast (signed_drop_bit 8 val) :: c_long) AND 0x0000FF00)) :: sint32);
         temp = (scast ((scast temp :: c_long)
                   OR ((scast (push_bit 8 val) :: c_long) AND 0x00FF0000)) :: sint32)
     in temp)"

definition swap_bytes_u64 :: "uint64 \<Rightarrow> uint64" where
  "swap_bytes_u64 val =
    (let temp = (0 :: uint64);
         temp = drop_bit 56 val AND 0x00000000000000FF;
         temp = temp OR (push_bit 56 val AND 0xFF00000000000000);
         temp = temp OR (drop_bit 40 val AND 0x000000000000FF00);
         temp = temp OR (push_bit 40 val AND 0x00FF000000000000);
         temp = temp OR (drop_bit 24 val AND 0x0000000000FF0000);
         temp = temp OR (push_bit 24 val AND 0x0000FF0000000000);
         temp = temp OR (drop_bit 8 val AND 0x00000000FF000000);
         temp = temp OR (push_bit 8 val AND 0x000000FF00000000)
     in temp)"

text \<open>
  \<open>sint64\<close>: the right shifts are arithmetic; the masks are \<open>unsigned long long\<close>, so
  the mask and the bitwise or are done on the unsigned pattern of the same width.
\<close>

definition swap_bytes_s64 :: "sint64 \<Rightarrow> sint64" where
  "swap_bytes_s64 val =
    (let temp = (0 :: sint64);
         temp = signed_drop_bit 56 val AND (0x00000000000000FF :: c_ulonglong);
         temp = temp OR (push_bit 56 val AND (0xFF00000000000000 :: c_ulonglong));
         temp = temp OR (signed_drop_bit 40 val AND (0x000000000000FF00 :: c_ulonglong));
         temp = temp OR (push_bit 40 val AND (0x00FF000000000000 :: c_ulonglong));
         temp = temp OR (signed_drop_bit 24 val AND (0x0000000000FF0000 :: c_ulonglong));
         temp = temp OR (push_bit 24 val AND (0x0000FF0000000000 :: c_ulonglong));
         temp = temp OR (signed_drop_bit 8 val AND (0x00000000FF000000 :: c_ulonglong));
         temp = temp OR (push_bit 8 val AND (0x000000FF00000000 :: c_ulonglong))
     in temp)"

text \<open>
  The floating-point specializations copy the bytes of \<open>temp\<close> into the bytes of
  \<open>float_swapped\<close> (initially \<open>0.0F\<close>, the all-zero pattern) in reverse address order.
  \<open>float32 temp = fval;\<close> and \<open>return float_swapped;\<close> move a floating-point value
  through the unit of the host; the bytes in between are moved as \<open>uint8\<close>.
\<close>

definition swap_bytes_f32 :: "host \<Rightarrow> float32 \<Rightarrow> float32" where
  "swap_bytes_f32 host fval =
    (let float_swapped = (0 :: float32);
         temp = float32_move (float_unit host) fval;
         float_to_convert = object_bytes (storage_order host) 4 temp;
         to_convert = object_bytes (storage_order host) 4 float_swapped;
         to_convert = to_convert[0 := float_to_convert ! 3];
         to_convert = to_convert[1 := float_to_convert ! 2];
         to_convert = to_convert[2 := float_to_convert ! 1];
         to_convert = to_convert[3 := float_to_convert ! 0];
         float_swapped = object_value (storage_order host) to_convert
     in float32_move (float_unit host) float_swapped)"

definition swap_bytes_f64 :: "host \<Rightarrow> float64 \<Rightarrow> float64" where
  "swap_bytes_f64 host fval =
    (let float_swapped = (0 :: float64);
         temp = float64_move (float_unit host) fval;
         float_to_convert = object_bytes (storage_order host) 8 temp;
         to_convert = object_bytes (storage_order host) 8 float_swapped;
         to_convert = to_convert[0 := float_to_convert ! 7];
         to_convert = to_convert[1 := float_to_convert ! 6];
         to_convert = to_convert[2 := float_to_convert ! 5];
         to_convert = to_convert[3 := float_to_convert ! 4];
         to_convert = to_convert[4 := float_to_convert ! 3];
         to_convert = to_convert[5 := float_to_convert ! 2];
         to_convert = to_convert[6 := float_to_convert ! 1];
         to_convert = to_convert[7 := float_to_convert ! 0];
         float_swapped = object_value (storage_order host) to_convert
     in float64_move (float_unit host) float_swapped)"

subsection \<open>The template and the two conversions\<close>

text \<open>
  A value together with its static type: the pairs \<open>(T, sizeof(T))\<close> for which
  \<open>swap_bytes< T, Sz >\<close> is specialized. Any other instantiation has no definition and
  does not build.
\<close>

datatype scalar =
    U8 uint8
  | U16 uint16
  | S16 sint16
  | U32 uint32
  | S32 sint32
  | U64 uint64
  | S64 sint64
  | F32 float32
  | F64 float64

fun swap_bytes :: "host \<Rightarrow> scalar \<Rightarrow> scalar" where
  "swap_bytes host (U8 val) = U8 (swap_bytes_u8 val)"
| "swap_bytes host (U16 val) = U16 (swap_bytes_u16 val)"
| "swap_bytes host (S16 val) = S16 (swap_bytes_s16 val)"
| "swap_bytes host (U32 val) = U32 (swap_bytes_u32 val)"
| "swap_bytes host (S32 val) = S32 (swap_bytes_s32 val)"
| "swap_bytes host (U64 val) = U64 (swap_bytes_u64 val)"
| "swap_bytes host (S64 val) = S64 (swap_bytes_s64 val)"
| "swap_bytes host (F32 fval) = F32 (swap_bytes_f32 host fval)"
| "swap_bytes host (F64 fval) = F64 (swap_bytes_f64 host fval)"

text \<open>
  \<open>macro\<close> is the value of \<open>BYTE_ORDER\<close> the header is built with (from \<open><endian.h>\<close>,
  or \<open>LITTLE_ENDIAN\<close> under \<open>_WIN32\<close>); \<open>host\<close> is the machine, which only the
  floating-point specializations look at.
\<close>

definition to_network :: "byte_order \<Rightarrow> host \<Rightarrow> scalar \<Rightarrow> scalar" where
  "to_network macro host val =
    (let convert = val;
         convert = (if macro = LITTLE_ENDIAN then swap_bytes host val else convert)
     in convert)"

definition from_network :: "byte_order \<Rightarrow> host \<Rightarrow> scalar \<Rightarrow> scalar" where
  "from_network macro host val =
    (let convert = val;
         convert = (if macro = LITTLE_ENDIAN then swap_bytes host val else convert)
     in convert)"

subsection \<open>The \<open>_WIN32\<close> data model\<close>

text \<open>
  Where \<open>long\<close> has 32 bits, the 4-byte specializations stay in 32 bits: the \<open>UL\<close> masks
  are 32-bit \<open>unsigned long\<close>, the \<open>L\<close> masks are \<open>long\<close> except \<open>0xFF000000L\<close>, which
  does not fit and is an \<open>unsigned long\<close>. The other specializations use \<open>int\<close> and
  \<open>unsigned long long\<close> only and read the same.
\<close>

definition swap_bytes_u32_long32 :: "uint32 \<Rightarrow> uint32" where
  "swap_bytes_u32_long32 val =
    (let temp = (0 :: uint32);
         temp = drop_bit 24 val AND 0x000000FF;
         temp = temp OR (push_bit 24 val AND 0xFF000000);
         temp = temp OR (drop_bit 8 val AND 0x0000FF00);
         temp = temp OR (push_bit 8 val AND 0x00FF0000)
     in temp)"

definition swap_bytes_s32_long32 :: "sint32 \<Rightarrow> sint32" where
  "swap_bytes_s32_long32 val =
    (let temp = (0 :: sint32);
         temp = signed_drop_bit 24 val AND 0x000000FF;
         temp = temp OR (push_bit 24 val AND 0xFF000000);
         temp = temp OR (signed_drop_bit 8 val AND 0x0000FF00);
         temp = temp OR (push_bit 8 val AND 0x00FF0000)
     in temp)"

subsection \<open>The operations with their runtime preconditions\<close>

text \<open>
  The code has no branch that reports an error. What the language leaves undefined at run
  time is: a shift by at least the width of its promoted left operand; a left shift of a
  signed operand that is negative, or whose product with the power of two does not fit the
  unsigned type of the same width (the rule of C++14 and C++17; C++11 asks for the signed
  type); and a subscript outside the bytes of the object. The functions below are the same
  code with each shift and each subscript checked: \<open>None\<close> is a violated precondition.
  A right shift of a negative operand is defined by the implementation, not undefined,
  and is the arithmetic one.
\<close>

definition shift_left_unsigned :: "'a::len word \<Rightarrow> nat \<Rightarrow> 'a word option" where
  "shift_left_unsigned x n = (if n < LENGTH('a) then Some (push_bit n x) else None)"

definition shift_left_signed :: "'a::len word \<Rightarrow> nat \<Rightarrow> 'a word option" where
  "shift_left_signed x n =
    (if n < LENGTH('a) \<and> 0 \<le> sint x \<and> sint x * 2 ^ n < 2 ^ LENGTH('a)
     then Some (push_bit n x) else None)"

definition shift_right_unsigned :: "'a::len word \<Rightarrow> nat \<Rightarrow> 'a word option" where
  "shift_right_unsigned x n = (if n < LENGTH('a) then Some (drop_bit n x) else None)"

definition shift_right_signed :: "'a::len word \<Rightarrow> nat \<Rightarrow> 'a word option" where
  "shift_right_signed x n = (if n < LENGTH('a) then Some (signed_drop_bit n x) else None)"

definition byte_read :: "uint8 list \<Rightarrow> nat \<Rightarrow> uint8 option" where
  "byte_read p i = (if i < length p then Some (p ! i) else None)"

definition byte_write :: "uint8 list \<Rightarrow> nat \<Rightarrow> uint8 \<Rightarrow> uint8 list option" where
  "byte_write p i b = (if i < length p then Some (p[i := b]) else None)"

definition copy_byte :: "uint8 list \<Rightarrow> nat \<Rightarrow> uint8 list \<Rightarrow> nat \<Rightarrow> uint8 list option" where
  "copy_byte dst i src j = do { b \<leftarrow> byte_read src j; byte_write dst i b }"

definition swap_bytes_u8_checked :: "uint8 \<Rightarrow> uint8 option" where
  "swap_bytes_u8_checked val = Some val"

definition swap_bytes_u16_checked :: "uint16 \<Rightarrow> uint16 option" where
  "swap_bytes_u16_checked val = do {
     let temp = (0 :: uint16);
     a \<leftarrow> shift_right_signed (ucast val :: c_int) 8;
     let temp = (ucast (a AND (0x00FF :: c_uint)) :: uint16);
     b \<leftarrow> shift_left_signed (ucast val :: c_int) 8;
     let temp = (ucast ((ucast temp :: c_uint) OR (b AND (0xFFFF :: c_uint))) :: uint16);
     Some temp
   }"

definition swap_bytes_s16_checked :: "sint16 \<Rightarrow> sint16 option" where
  "swap_bytes_s16_checked val = do {
     let temp = (0 :: sint16);
     a \<leftarrow> shift_right_signed (scast val :: c_int) 8;
     let temp = (scast (a AND (0x00FF :: c_int)) :: sint16);
     b \<leftarrow> shift_left_signed (scast val :: c_int) 8;
     let temp = (scast ((scast temp :: c_int) OR (b AND (0xFFFF :: c_int))) :: sint16);
     Some temp
   }"

definition swap_bytes_u32_checked :: "uint32 \<Rightarrow> uint32 option" where
  "swap_bytes_u32_checked val = do {
     let temp = (0 :: uint32);
     a \<leftarrow> shift_right_unsigned val 24;
     let temp = (ucast ((ucast a :: c_ulong) AND 0x000000FF) :: uint32);
     b \<leftarrow> shift_left_unsigned val 24;
     let temp = (ucast ((ucast temp :: c_ulong) OR ((ucast b :: c_ulong) AND 0xFF000000)) :: uint32);
     c \<leftarrow> shift_right_unsigned val 8;
     let temp = (ucast ((ucast temp :: c_ulong) OR ((ucast c :: c_ulong) AND 0x0000FF00)) :: uint32);
     d \<leftarrow> shift_left_unsigned val 8;
     let temp = (ucast ((ucast temp :: c_ulong) OR ((ucast d :: c_ulong) AND 0x00FF0000)) :: uint32);
     Some temp
   }"

definition swap_bytes_s32_checked :: "sint32 \<Rightarrow> sint32 option" where
  "swap_bytes_s32_checked val = do {
     let temp = (0 :: sint32);
     a \<leftarrow> shift_right_signed val 24;
     let temp = (scast ((scast a :: c_long) AND 0x000000FF) :: sint32);
     b \<leftarrow> shift_left_signed val 24;
     let temp = (scast ((scast temp :: c_long) OR ((scast b :: c_long) AND 0xFF000000)) :: sint32);
     c \<leftarrow> shift_right_signed val 8;
     let temp = (scast ((scast temp :: c_long) OR ((scast c :: c_long) AND 0x0000FF00)) :: sint32);
     d \<leftarrow> shift_left_signed val 8;
     let temp = (scast ((scast temp :: c_long) OR ((scast d :: c_long) AND 0x00FF0000)) :: sint32);
     Some temp
   }"

definition swap_bytes_u64_checked :: "uint64 \<Rightarrow> uint64 option" where
  "swap_bytes_u64_checked val = do {
     let temp = (0 :: uint64);
     s1 \<leftarrow> shift_right_unsigned val 56;
     let temp = s1 AND 0x00000000000000FF;
     s2 \<leftarrow> shift_left_unsigned val 56;
     let temp = temp OR (s2 AND 0xFF00000000000000);
     s3 \<leftarrow> shift_right_unsigned val 40;
     let temp = temp OR (s3 AND 0x000000000000FF00);
     s4 \<leftarrow> shift_left_unsigned val 40;
     let temp = temp OR (s4 AND 0x00FF000000000000);
     s5 \<leftarrow> shift_right_unsigned val 24;
     let temp = temp OR (s5 AND 0x0000000000FF0000);
     s6 \<leftarrow> shift_left_unsigned val 24;
     let temp = temp OR (s6 AND 0x0000FF0000000000);
     s7 \<leftarrow> shift_right_unsigned val 8;
     let temp = temp OR (s7 AND 0x00000000FF000000);
     s8 \<leftarrow> shift_left_unsigned val 8;
     let temp = temp OR (s8 AND 0x000000FF00000000);
     Some temp
   }"

definition swap_bytes_s64_checked :: "sint64 \<Rightarrow> sint64 option" where
  "swap_bytes_s64_checked val = do {
     let temp = (0 :: sint64);
     s1 \<leftarrow> shift_right_signed val 56;
     let temp = s1 AND (0x00000000000000FF :: c_ulonglong);
     s2 \<leftarrow> shift_left_signed val 56;
     let temp = temp OR (s2 AND (0xFF00000000000000 :: c_ulonglong));
     s3 \<leftarrow> shift_right_signed val 40;
     let temp = temp OR (s3 AND (0x000000000000FF00 :: c_ulonglong));
     s4 \<leftarrow> shift_left_signed val 40;
     let temp = temp OR (s4 AND (0x00FF000000000000 :: c_ulonglong));
     s5 \<leftarrow> shift_right_signed val 24;
     let temp = temp OR (s5 AND (0x0000000000FF0000 :: c_ulonglong));
     s6 \<leftarrow> shift_left_signed val 24;
     let temp = temp OR (s6 AND (0x0000FF0000000000 :: c_ulonglong));
     s7 \<leftarrow> shift_right_signed val 8;
     let temp = temp OR (s7 AND (0x00000000FF000000 :: c_ulonglong));
     s8 \<leftarrow> shift_left_signed val 8;
     let temp = temp OR (s8 AND (0x000000FF00000000 :: c_ulonglong));
     Some temp
   }"

definition swap_bytes_f32_checked :: "host \<Rightarrow> float32 \<Rightarrow> float32 option" where
  "swap_bytes_f32_checked host fval = do {
     let float_swapped = (0 :: float32);
     let temp = float32_move (float_unit host) fval;
     let float_to_convert = object_bytes (storage_order host) 4 temp;
     let to_convert = object_bytes (storage_order host) 4 float_swapped;
     to_convert \<leftarrow> copy_byte to_convert 0 float_to_convert 3;
     to_convert \<leftarrow> copy_byte to_convert 1 float_to_convert 2;
     to_convert \<leftarrow> copy_byte to_convert 2 float_to_convert 1;
     to_convert \<leftarrow> copy_byte to_convert 3 float_to_convert 0;
     let float_swapped = object_value (storage_order host) to_convert;
     Some (float32_move (float_unit host) float_swapped)
   }"

definition swap_bytes_f64_checked :: "host \<Rightarrow> float64 \<Rightarrow> float64 option" where
  "swap_bytes_f64_checked host fval = do {
     let float_swapped = (0 :: float64);
     let temp = float64_move (float_unit host) fval;
     let float_to_convert = object_bytes (storage_order host) 8 temp;
     let to_convert = object_bytes (storage_order host) 8 float_swapped;
     to_convert \<leftarrow> copy_byte to_convert 0 float_to_convert 7;
     to_convert \<leftarrow> copy_byte to_convert 1 float_to_convert 6;
     to_convert \<leftarrow> copy_byte to_convert 2 float_to_convert 5;
     to_convert \<leftarrow> copy_byte to_convert 3 float_to_convert 4;
     to_convert \<leftarrow> copy_byte to_convert 4 float_to_convert 3;
     to_convert \<leftarrow> copy_byte to_convert 5 float_to_convert 2;
     to_convert \<leftarrow> copy_byte to_convert 6 float_to_convert 1;
     to_convert \<leftarrow> copy_byte to_convert 7 float_to_convert 0;
     let float_swapped = object_value (storage_order host) to_convert;
     Some (float64_move (float_unit host) float_swapped)
   }"

fun swap_bytes_checked :: "host \<Rightarrow> scalar \<Rightarrow> scalar option" where
  "swap_bytes_checked host (U8 val) = map_option U8 (swap_bytes_u8_checked val)"
| "swap_bytes_checked host (U16 val) = map_option U16 (swap_bytes_u16_checked val)"
| "swap_bytes_checked host (S16 val) = map_option S16 (swap_bytes_s16_checked val)"
| "swap_bytes_checked host (U32 val) = map_option U32 (swap_bytes_u32_checked val)"
| "swap_bytes_checked host (S32 val) = map_option S32 (swap_bytes_s32_checked val)"
| "swap_bytes_checked host (U64 val) = map_option U64 (swap_bytes_u64_checked val)"
| "swap_bytes_checked host (S64 val) = map_option S64 (swap_bytes_s64_checked val)"
| "swap_bytes_checked host (F32 fval) = map_option F32 (swap_bytes_f32_checked host fval)"
| "swap_bytes_checked host (F64 fval) = map_option F64 (swap_bytes_f64_checked host fval)"

definition to_network_checked :: "byte_order \<Rightarrow> host \<Rightarrow> scalar \<Rightarrow> scalar option" where
  "to_network_checked macro host val =
    (if macro = LITTLE_ENDIAN then swap_bytes_checked host val else Some val)"

definition from_network_checked :: "byte_order \<Rightarrow> host \<Rightarrow> scalar \<Rightarrow> scalar option" where
  "from_network_checked macro host val =
    (if macro = LITTLE_ENDIAN then swap_bytes_checked host val else Some val)"

subsection \<open>The reference byte reversal\<close>

text \<open>
  The specification's description of the result: the byte at position \<open>i\<close> from the least
  significant end of the input is the byte at position \<open>width - 1 - i\<close> of the output;
  that is, the output's byte \<open>j\<close> is the input's byte \<open>width - 1 - j\<close>.
\<close>

definition reverse_bytes :: "nat \<Rightarrow> 'a::len word \<Rightarrow> 'a word" where
  "reverse_bytes width x = of_bytes (map (\<lambda>j. byte_at x (width - 1 - j)) [0..<width])"

section \<open>Properties\<close>

subsection \<open>Bytes of a pattern\<close>

lemma bit_byte_at: "bit (byte_at w i) n \<longleftrightarrow> n < 8 \<and> bit w (8 * i + n)"
  by (auto simp add: byte_at_def bit_simps)

lemma bit_of_bytes:
  "bit (of_bytes bs :: 'a::len word) n \<longleftrightarrow>
     n < LENGTH('a) \<and> n div 8 < length bs \<and> bit (bs ! (n div 8)) (n mod 8)"
proof (induction bs arbitrary: n)
  case Nil
  show ?case by simp
next
  case (Cons b bs)
  show ?case
  proof (cases "n < 8")
    case True
    then show ?thesis
      by (auto simp add: bit_simps dest: bit_imp_le_length)
  next
    case False
    then have n: "8 \<le> n" by simp
    then have d: "n div 8 = Suc ((n - 8) div 8)" and m: "(n - 8) mod 8 = n mod 8"
      by (simp_all add: le_div_geq le_mod_geq)
    have "bit (ucast b :: 'a word) n = False"
      using n by (auto simp add: bit_simps dest: bit_imp_le_length)
    then show ?thesis
      using n by (auto simp add: bit_simps Cons.IH d m)
  qed
qed

lemma byte_at_of_bytes:
  assumes "i < length bs" "8 * length bs \<le> LENGTH('a::len)"
  shows "byte_at (of_bytes bs :: 'a word) i = bs ! i"
proof (rule bit_word_eqI)
  fix n assume "n < LENGTH(8)"
  then have n: "n < 8" by simp
  then have "8 * i + n < 8 * length bs" using assms(1) by simp
  then have "8 * i + n < LENGTH('a)" using assms(2) by simp
  moreover have "(8 * i + n) div 8 = i" "(8 * i + n) mod 8 = n" using n by simp_all
  ultimately show "bit (byte_at (of_bytes bs :: 'a word) i) n = bit (bs ! i) n"
    using n assms(1) by (simp add: bit_byte_at bit_of_bytes)
qed

lemma bit_reverse_bytes:
  "bit (reverse_bytes width x :: 'a::len word) n \<longleftrightarrow>
     n < LENGTH('a) \<and> n div 8 < width \<and> bit x (8 * (width - 1 - n div 8) + n mod 8)"
  by (auto simp add: reverse_bytes_def bit_of_bytes bit_byte_at)

lemma reverse_bytes_involution:
  assumes "LENGTH('a::len) = 8 * width"
  shows "reverse_bytes width (reverse_bytes width x) = (x :: 'a word)"
proof (rule bit_word_eqI)
  fix n assume n: "n < LENGTH('a)"
  then have d: "n div 8 < width" using assms by simp
  define m where "m = 8 * (width - 1 - n div 8) + n mod 8"
  have md: "m div 8 = width - 1 - n div 8" and mm: "m mod 8 = n mod 8"
    by (simp_all add: m_def)
  have "n mod 8 < 8" by simp
  moreover have "width - 1 - n div 8 < width" using d by arith
  ultimately have "m < 8 * width" unfolding m_def by arith
  then have ml: "m < LENGTH('a)" using assms by simp
  have inv: "8 * (width - 1 - m div 8) + m mod 8 = n"
    using d by (simp add: md mm)
  have mw: "m div 8 < width" using d by (simp add: md)
  have "bit (reverse_bytes width (reverse_bytes width x)) n \<longleftrightarrow> bit (reverse_bytes width x) m"
    using n d by (simp add: bit_reverse_bytes [where x = "reverse_bytes width x"] m_def)
  also have "\<dots> \<longleftrightarrow> bit x (8 * (width - 1 - m div 8) + m mod 8)"
    using ml mw by (simp only: bit_reverse_bytes [where x = x] simp_thms)
  also have "\<dots> \<longleftrightarrow> bit x n"
    by (simp only: inv)
  finally show "bit (reverse_bytes width (reverse_bytes width x)) n = bit x n" .
qed

lemma byte_at_reverse_bytes:
  assumes "LENGTH('a::len) = 8 * width" "i < width"
  shows "byte_at (reverse_bytes width x :: 'a word) (width - 1 - i) = byte_at x i"
  using assms by (simp add: reverse_bytes_def byte_at_of_bytes)


lemma masks32:
  "(0xFF :: 32 word) = mask 8"
  "(0xFFFF :: 32 word) = mask 16"
  "(0xFF00 :: 32 word) = push_bit 8 (mask 8)"
  "(0xFF0000 :: 32 word) = push_bit 16 (mask 8)"
  "(0xFF000000 :: 32 word) = push_bit 24 (mask 8)"
  by (simp_all add: mask_eq_exp_minus_1 push_bit_eq_mult)

lemma masks64:
  "(0xFF :: 64 word) = mask 8"
  "(0xFF00 :: 64 word) = push_bit 8 (mask 8)"
  "(0xFF0000 :: 64 word) = push_bit 16 (mask 8)"
  "(0xFF000000 :: 64 word) = push_bit 24 (mask 8)"
  "(0xFF00000000 :: 64 word) = push_bit 32 (mask 8)"
  "(0xFF0000000000 :: 64 word) = push_bit 40 (mask 8)"
  "(0xFF000000000000 :: 64 word) = push_bit 48 (mask 8)"
  "(0xFF00000000000000 :: 64 word) = push_bit 56 (mask 8)"
  by (simp_all add: mask_eq_exp_minus_1 push_bit_eq_mult)

lemma upt_2: "[0..<2] = [0, 1]"
  by (simp add: upt_rec)

lemma upt_4: "[0..<4] = [0, 1, 2, 3]"
  by (simp add: upt_rec)

lemma upt_8: "[0..<8] = [0, 1, 2, 3, 4, 5, 6, 7]"
  by (simp add: upt_rec)

lemma reverse_bytes_2: "reverse_bytes 2 x = of_bytes [byte_at x 1, byte_at x 0]"
  by (simp add: reverse_bytes_def upt_2)

lemma reverse_bytes_4:
  "reverse_bytes 4 x = of_bytes [byte_at x 3, byte_at x 2, byte_at x 1, byte_at x 0]"
  by (simp add: reverse_bytes_def upt_4)

lemma reverse_bytes_8:
  "reverse_bytes 8 x = of_bytes [byte_at x 7, byte_at x 6, byte_at x 5, byte_at x 4,
     byte_at x 3, byte_at x 2, byte_at x 1, byte_at x 0]"
  by (simp add: reverse_bytes_def upt_8)

lemma byte_ranges64:
  assumes "(n::nat) < 64"
  obtains "n < 8" | "8 \<le> n" "n < 16" | "16 \<le> n" "n < 24" | "24 \<le> n" "n < 32"
    | "32 \<le> n" "n < 40" | "40 \<le> n" "n < 48" | "48 \<le> n" "n < 56" | "56 \<le> n" "n < 64"
  using assms by linarith

subsection \<open>Each specialization is the byte reversal\<close>

lemma swap_bytes_u16_eq: "swap_bytes_u16 x = reverse_bytes 2 x"
  unfolding reverse_bytes_2
  apply (rule bit_word_eqI)
  apply (simp add: swap_bytes_u16_def Let_def masks32 bit_simps bit_byte_at)
  apply (auto simp: bit_simps ac_simps dest: bit_imp_le_length)
  done

lemma swap_bytes_s16_eq: "swap_bytes_s16 x = reverse_bytes 2 x"
  unfolding reverse_bytes_2
  apply (rule bit_word_eqI)
  apply (simp add: swap_bytes_s16_def Let_def masks32 bit_simps bit_byte_at)
  apply (auto simp: bit_simps ac_simps dest: bit_imp_le_length)
  done

lemma swap_bytes_u32_eq: "swap_bytes_u32 x = reverse_bytes 4 x"
  unfolding reverse_bytes_4
  apply (rule bit_word_eqI)
  apply (simp add: swap_bytes_u32_def Let_def masks64 bit_simps bit_byte_at)
  apply (auto simp: bit_simps ac_simps dest: bit_imp_le_length)
  done

lemma swap_bytes_s32_eq: "swap_bytes_s32 x = reverse_bytes 4 x"
  unfolding reverse_bytes_4
  apply (rule bit_word_eqI)
  apply (simp add: swap_bytes_s32_def Let_def masks64 bit_simps bit_byte_at)
  apply (auto simp: bit_simps ac_simps dest: bit_imp_le_length)
  done

lemma swap_bytes_u64_eq: "swap_bytes_u64 x = reverse_bytes 8 x"
  unfolding reverse_bytes_8
proof (rule bit_word_eqI)
  fix n assume "n < LENGTH(64)"
  then have "n < 64" by simp
  then show "bit (swap_bytes_u64 x) n =
      bit (of_bytes [byte_at x 7, byte_at x 6, byte_at x 5, byte_at x 4,
        byte_at x 3, byte_at x 2, byte_at x 1, byte_at x 0] :: 64 word) n"
    by (cases rule: byte_ranges64)
       (simp_all add: swap_bytes_u64_def Let_def masks64 bit_simps bit_byte_at ac_simps)
qed

lemma signed_drop_bit_masked:
  fixes w :: "'a::len word"
  assumes "k + j + 8 \<le> LENGTH('a)"
  shows "signed_drop_bit k w AND push_bit j (mask 8) = drop_bit k w AND push_bit j (mask 8)"
proof (rule bit_word_eqI)
  fix n assume "n < LENGTH('a)"
  show "bit (signed_drop_bit k w AND push_bit j (mask 8)) n =
        bit (drop_bit k w AND push_bit j (mask 8)) n"
  proof (cases "j \<le> n \<and> n - j < 8")
    case True
    then have "\<not> LENGTH('a) - k \<le> n" using assms by arith
    then show ?thesis
      by (simp add: bit_and_iff bit_signed_drop_bit_iff bit_drop_bit_eq add.commute)
  next
    case False
    then show ?thesis
      by (auto simp add: bit_and_iff bit_push_bit_iff bit_mask_iff)
  qed
qed

lemma signed_drop_bit_masked_low:
  fixes w :: "'a::len word"
  assumes "k + 8 \<le> LENGTH('a)"
  shows "signed_drop_bit k w AND mask 8 = drop_bit k w AND mask 8"
  using signed_drop_bit_masked [of k 0 w] assms by simp

lemma swap_bytes_s64_eq: "swap_bytes_s64 x = reverse_bytes 8 x"
proof -
  have "swap_bytes_s64 x = swap_bytes_u64 x"
    by (simp add: swap_bytes_s64_def swap_bytes_u64_def masks64
          signed_drop_bit_masked signed_drop_bit_masked_low)
  then show ?thesis
    by (simp only: swap_bytes_u64_eq)
qed

lemma swap_bytes_f32_eq:
  "swap_bytes_f32 host x =
     float32_move (float_unit host) (reverse_bytes 4 (float32_move (float_unit host) x))"
  unfolding reverse_bytes_4
  by (cases "storage_order host") (simp_all add: swap_bytes_f32_def Let_def upt_4)

lemma swap_bytes_f64_eq:
  "swap_bytes_f64 host x =
     float64_move (float_unit host) (reverse_bytes 8 (float64_move (float_unit host) x))"
  unfolding reverse_bytes_8
  by (cases "storage_order host") (simp_all add: swap_bytes_f64_def Let_def upt_8)

subsection \<open>Where swapping twice is the identity\<close>

lemma float32_move_idem: "float32_move fu (float32_move fu w) = float32_move fu w"
proof (cases fu)
  case SSE then show ?thesis by simp
next
  case X87
  have "\<not> is_signalling_nan32 (w OR 0x00400000)"
    by (simp add: is_signalling_nan32_def bit_simps)
  with X87 show ?thesis by simp
qed

lemma float64_move_idem: "float64_move fu (float64_move fu w) = float64_move fu w"
proof (cases fu)
  case SSE then show ?thesis by simp
next
  case X87
  have "\<not> is_signalling_nan64 (w OR 0x0008000000000000)"
    by (simp add: is_signalling_nan64_def bit_simps)
  with X87 show ?thesis by simp
qed

lemma swap_bytes_f32_round_trip:
  assumes "float_unit host = SSE
    \<or> (\<not> is_signalling_nan32 f \<and> \<not> is_signalling_nan32 (reverse_bytes 4 f))"
  shows "swap_bytes_f32 host (swap_bytes_f32 host f) = f"
proof (cases "float_unit host")
  case SSE
  then show ?thesis
    by (simp add: swap_bytes_f32_eq reverse_bytes_involution)
next
  case X87
  with assms show ?thesis
    by (simp add: swap_bytes_f32_eq reverse_bytes_involution)
qed

lemma swap_bytes_f64_round_trip:
  assumes "float_unit host = SSE
    \<or> (\<not> is_signalling_nan64 f \<and> \<not> is_signalling_nan64 (reverse_bytes 8 f))"
  shows "swap_bytes_f64 host (swap_bytes_f64 host f) = f"
proof (cases "float_unit host")
  case SSE
  then show ?thesis
    by (simp add: swap_bytes_f64_eq reverse_bytes_involution)
next
  case X87
  with assms show ?thesis
    by (simp add: swap_bytes_f64_eq reverse_bytes_involution)
qed

lemma swap_bytes_twice_integer:
  "swap_bytes host (swap_bytes host (U8 a)) = U8 a"
  "swap_bytes host (swap_bytes host (U16 b)) = U16 b"
  "swap_bytes host (swap_bytes host (S16 c)) = S16 c"
  "swap_bytes host (swap_bytes host (U32 d)) = U32 d"
  "swap_bytes host (swap_bytes host (S32 e)) = S32 e"
  "swap_bytes host (swap_bytes host (U64 f)) = U64 f"
  "swap_bytes host (swap_bytes host (S64 g)) = S64 g"
  by (simp_all add: swap_bytes_u8_def swap_bytes_u16_eq swap_bytes_s16_eq swap_bytes_u32_eq
        swap_bytes_s32_eq swap_bytes_u64_eq swap_bytes_s64_eq reverse_bytes_involution)

lemma swap_bytes_twice_preserving:
  assumes "float_unit host = SSE"
  shows "swap_bytes host (swap_bytes host v) = v"
proof (cases v)
  case (F32 x)
  with assms show ?thesis
    by (simp add: swap_bytes_f32_round_trip)
next
  case (F64 x)
  with assms show ?thesis
    by (simp add: swap_bytes_f64_round_trip)
qed (simp_all only: swap_bytes_twice_integer)

lemma from_network_to_network_integer:
  "from_network macro host (to_network macro host (U8 a)) = U8 a"
  "from_network macro host (to_network macro host (U16 b)) = U16 b"
  "from_network macro host (to_network macro host (S16 c)) = S16 c"
  "from_network macro host (to_network macro host (U32 d)) = U32 d"
  "from_network macro host (to_network macro host (S32 e)) = S32 e"
  "from_network macro host (to_network macro host (U64 f)) = U64 f"
  "from_network macro host (to_network macro host (S64 g)) = S64 g"
  by (simp_all add: from_network_def to_network_def swap_bytes_twice_integer
        del: swap_bytes.simps)

lemma from_network_to_network_preserving:
  assumes "float_unit host = SSE"
  shows "from_network macro host (to_network macro host x) = x"
  using assms by (simp add: from_network_def to_network_def swap_bytes_twice_preserving)

subsection \<open>The 32-bit \<open>long\<close> variants\<close>

lemma swap_bytes_u32_long32_eq: "swap_bytes_u32_long32 x = reverse_bytes 4 x"
  unfolding reverse_bytes_4
  apply (rule bit_word_eqI)
  apply (simp add: swap_bytes_u32_long32_def Let_def masks32 bit_simps bit_byte_at)
  apply (auto simp: bit_simps ac_simps dest: bit_imp_le_length)
  done

lemma swap_bytes_s32_long32_eq: "swap_bytes_s32_long32 x = reverse_bytes 4 x"
  unfolding reverse_bytes_4
  apply (rule bit_word_eqI)
  apply (simp add: swap_bytes_s32_long32_def Let_def masks32 bit_simps bit_byte_at)
  apply (auto simp: bit_simps ac_simps dest: bit_imp_le_length)
  done

subsection \<open>The checked operations\<close>

lemma sint_promote_unsigned: "sint (ucast (v :: uint16) :: c_int) = uint v"
proof -
  have "uint v < 2 ^ 16" using uint_lt2p [of v] by simp
  then have "uint v < 2 ^ 31" by simp
  moreover have "- (2 ^ 31) \<le> uint v"
    by (rule order_trans [of _ 0]) simp_all
  ultimately have "signed_take_bit 31 (uint v) = uint v"
    by (rule signed_take_bit_int_eq_self [rotated])
  then show ?thesis
    by (simp add: signed_ucast_eq)
qed

lemma sint_promote_signed: "sint (scast (v :: sint16) :: c_int) = sint v"
  by (simp add: sint_up_scast is_up)

lemma sint16_bounds: "sint (v :: sint16) < 2 ^ 15"
  using sint_less [of v] by simp

lemma swap_bytes_u16_checked_eq: "swap_bytes_u16_checked val = Some (swap_bytes_u16 val)"
proof -
  have "uint val < 2 ^ 16" using uint_lt2p [of val] by simp
  then have "uint val * 2 ^ 8 < 2 ^ 32" by simp
  then have "shift_left_signed (ucast val :: c_int) 8 = Some (push_bit 8 (ucast val))"
    by (simp add: shift_left_signed_def sint_promote_unsigned)
  then show ?thesis
    by (simp add: swap_bytes_u16_checked_def swap_bytes_u16_def shift_right_signed_def)
qed

lemma swap_bytes_s16_checked_eq:
  "swap_bytes_s16_checked val = (if 0 \<le> sint val then Some (swap_bytes_s16 val) else None)"
proof -
  have "sint val * 2 ^ 8 < 2 ^ 32" using sint16_bounds [of val] by simp
  then have "shift_left_signed (scast val :: c_int) 8 =
      (if 0 \<le> sint val then Some (push_bit 8 (scast val)) else None)"
    by (simp add: shift_left_signed_def sint_promote_signed)
  then show ?thesis
    by (simp add: swap_bytes_s16_checked_def swap_bytes_s16_def shift_right_signed_def)
qed

lemma swap_bytes_s32_checked_eq:
  "swap_bytes_s32_checked val =
     (if 0 \<le> sint val \<and> sint val < 2 ^ 8 then Some (swap_bytes_s32 val) else None)"
proof -
  have a: "shift_left_signed val 24 =
      (if 0 \<le> sint val \<and> sint val < 2 ^ 8 then Some (push_bit 24 val) else None)"
    by (simp add: shift_left_signed_def)
  have b: "0 \<le> sint val \<and> sint val < 2 ^ 8 \<Longrightarrow> shift_left_signed val 8 = Some (push_bit 8 val)"
    by (simp add: shift_left_signed_def)
  show ?thesis
    by (simp add: swap_bytes_s32_checked_def swap_bytes_s32_def shift_right_signed_def a b)
qed

lemma swap_bytes_s64_checked_eq:
  "swap_bytes_s64_checked val =
     (if 0 \<le> sint val \<and> sint val < 2 ^ 8 then Some (swap_bytes_s64 val) else None)"
proof -
  have a: "shift_left_signed val 56 =
      (if 0 \<le> sint val \<and> sint val < 2 ^ 8 then Some (push_bit 56 val) else None)"
    by (simp add: shift_left_signed_def)
  have b: "0 \<le> sint val \<and> sint val < 2 ^ 8 \<Longrightarrow> shift_left_signed val 40 = Some (push_bit 40 val)"
    "0 \<le> sint val \<and> sint val < 2 ^ 8 \<Longrightarrow> shift_left_signed val 24 = Some (push_bit 24 val)"
    "0 \<le> sint val \<and> sint val < 2 ^ 8 \<Longrightarrow> shift_left_signed val 8 = Some (push_bit 8 val)"
    by (simp_all add: shift_left_signed_def)
  show ?thesis
    by (simp add: swap_bytes_s64_checked_def swap_bytes_s64_def shift_right_signed_def a b)
qed

lemma swap_bytes_u32_checked_eq: "swap_bytes_u32_checked val = Some (swap_bytes_u32 val)"
  by (simp add: swap_bytes_u32_checked_def swap_bytes_u32_def shift_left_unsigned_def
        shift_right_unsigned_def)

lemma swap_bytes_u64_checked_eq: "swap_bytes_u64_checked val = Some (swap_bytes_u64 val)"
  by (simp add: swap_bytes_u64_checked_def swap_bytes_u64_def shift_left_unsigned_def
        shift_right_unsigned_def)

lemma length_object_bytes: "length (object_bytes order sz w) = sz"
  by (cases order) simp_all

lemma copy_byte_Some:
  "i < length dst \<Longrightarrow> j < length src \<Longrightarrow> copy_byte dst i src j = Some (dst[i := src ! j])"
  by (simp add: copy_byte_def byte_read_def byte_write_def)

lemma swap_bytes_f32_checked_eq: "swap_bytes_f32_checked host fval = Some (swap_bytes_f32 host fval)"
  by (simp add: swap_bytes_f32_checked_def swap_bytes_f32_def Let_def copy_byte_Some
        length_object_bytes)

lemma swap_bytes_f64_checked_eq: "swap_bytes_f64_checked host fval = Some (swap_bytes_f64 host fval)"
  by (simp add: swap_bytes_f64_checked_def swap_bytes_f64_def Let_def copy_byte_Some
        length_object_bytes)

lemma swap_bytes_checked_unsigned_float:
  "swap_bytes_checked host (U8 a) = Some (swap_bytes host (U8 a))"
  "swap_bytes_checked host (U16 b) = Some (swap_bytes host (U16 b))"
  "swap_bytes_checked host (U32 c) = Some (swap_bytes host (U32 c))"
  "swap_bytes_checked host (U64 d) = Some (swap_bytes host (U64 d))"
  "swap_bytes_checked host (F32 e) = Some (swap_bytes host (F32 e))"
  "swap_bytes_checked host (F64 f) = Some (swap_bytes host (F64 f))"
  by (simp_all add: swap_bytes_u8_checked_def swap_bytes_u8_def swap_bytes_u16_checked_eq
        swap_bytes_u32_checked_eq swap_bytes_u64_checked_eq swap_bytes_f32_checked_eq
        swap_bytes_f64_checked_eq)

lemma swap_bytes_checked_signed:
  "swap_bytes_checked host (S16 a) =
     (if 0 \<le> sint a then Some (swap_bytes host (S16 a)) else None)"
  "swap_bytes_checked host (S32 b) =
     (if 0 \<le> sint b \<and> sint b < 2 ^ 8 then Some (swap_bytes host (S32 b)) else None)"
  "swap_bytes_checked host (S64 c) =
     (if 0 \<le> sint c \<and> sint c < 2 ^ 8 then Some (swap_bytes host (S64 c)) else None)"
  by (simp_all add: swap_bytes_s16_checked_eq swap_bytes_s32_checked_eq
        swap_bytes_s64_checked_eq)

section \<open>The claims\<close>

text \<open>
  C1. Involution: for every supported width and type (unsigned, signed, floating point) and
  every bit pattern, swapping the bytes twice gives back the original pattern. It holds of
  every integer specialization on every host, and of the floating-point ones on a host
  whose unit keeps patterns (\<open>swap_bytes_twice_integer\<close>, \<open>swap_bytes_twice_preserving\<close>).
  On an i386 build it fails: the finite 4-byte pattern \<open>0x0100A07F\<close> reverses to the
  signalling NaN \<open>0x7FA00001\<close>, which the return through \<open>st(0)\<close> quiets, and the second
  swap gives \<open>0x0100E07F\<close>; the 8-byte signalling NaN \<open>0x7FF4000000000001\<close> comes back
  as \<open>0x7FFC000000000001\<close>.
\<close>

theorem swap_bytes_twice_i386:
  "swap_bytes i386 (swap_bytes i386 (F32 0x0100A07F)) = F32 0x0100E07F
   \<and> swap_bytes i386 (swap_bytes i386 (F32 0x0100A07F)) \<noteq> F32 0x0100A07F
   \<and> swap_bytes i386 (swap_bytes i386 (F64 0x7FF4000000000001)) = F64 0x7FFC000000000001
   \<and> swap_bytes i386 (swap_bytes i386 (F64 0x7FF4000000000001)) \<noteq> F64 0x7FF4000000000001"
proof -
  have a: "swap_bytes i386 (swap_bytes i386 (F32 0x0100A07F)) = F32 0x0100E07F"
    by code_simp
  have b: "swap_bytes i386 (swap_bytes i386 (F64 0x7FF4000000000001)) = F64 0x7FFC000000000001"
    by code_simp
  show ?thesis
    by (simp only: a b) simp
qed

text \<open>
  C2. Each multi-byte integer specialization (2, 4 and 8 bytes, signed and unsigned) is the
  reference byte reversal, which puts the input's byte \<open>i\<close> at position \<open>width - 1 - i\<close>;
  and the known vectors: \<open>0x1234\<close> gives \<open>0x3412\<close>, \<open>0x12345678\<close> gives \<open>0x78563412\<close>,
  \<open>0x0102030405060708\<close> gives \<open>0x0807060504030201\<close>.
\<close>

theorem swap_bytes_is_reverse_bytes:
  "swap_bytes_u16 a = reverse_bytes 2 a \<and> swap_bytes_s16 b = reverse_bytes 2 b
   \<and> swap_bytes_u32 c = reverse_bytes 4 c \<and> swap_bytes_s32 d = reverse_bytes 4 d
   \<and> swap_bytes_u64 e = reverse_bytes 8 e \<and> swap_bytes_s64 f = reverse_bytes 8 f
   \<and> swap_bytes_u16 0x1234 = 0x3412
   \<and> swap_bytes_u32 0x12345678 = 0x78563412
   \<and> swap_bytes_u64 0x0102030405060708 = 0x0807060504030201"
proof -
  have "swap_bytes_u16 0x1234 = 0x3412" by code_simp
  moreover have "swap_bytes_u32 0x12345678 = 0x78563412" by code_simp
  moreover have "swap_bytes_u64 0x0102030405060708 = 0x0807060504030201" by code_simp
  ultimately show ?thesis
    by (simp only: swap_bytes_u16_eq swap_bytes_s16_eq swap_bytes_u32_eq swap_bytes_s32_eq
          swap_bytes_u64_eq swap_bytes_s64_eq simp_thms)
qed

text \<open>
  C3. Under either value of \<open>BYTE_ORDER\<close>, decoding what was encoded gives back the
  original value: \<open>from_network (to_network x) = x\<close>, for every supported width and type.
  It holds of every integer type on every host, and of the floating-point types on a host
  whose unit keeps patterns (\<open>from_network_to_network_integer\<close>,
  \<open>from_network_to_network_preserving\<close>). On an i386 build, where \<open>BYTE_ORDER\<close> is
  \<open>LITTLE_ENDIAN\<close>, it fails: the 4-byte float with the finite pattern \<open>0x0100A07F\<close>
  comes back as \<open>0x0100E07F\<close>.
\<close>

theorem from_network_to_network_i386:
  "from_network LITTLE_ENDIAN i386 (to_network LITTLE_ENDIAN i386 (F32 0x0100A07F))
     = F32 0x0100E07F
   \<and> from_network LITTLE_ENDIAN i386 (to_network LITTLE_ENDIAN i386 (F32 0x0100A07F))
     \<noteq> F32 0x0100A07F"
proof -
  have a: "from_network LITTLE_ENDIAN i386 (to_network LITTLE_ENDIAN i386 (F32 0x0100A07F))
      = F32 0x0100E07F"
    by code_simp
  show ?thesis
    by (simp only: a) simp
qed


text \<open>
  C5. The signed specializations leak no sign-extension bits: the result of the signed
  2-byte swap, read in two's complement, is the byte-reversed pattern read in two's
  complement (and the signed 4- and 8-byte swaps are the byte reversal as well);
  \<open>-1\<close> (\<open>0xFFFF\<close>) gives \<open>-1\<close>, and \<open>-2\<close> (\<open>0xFFFE\<close>) gives the value with the pattern
  \<open>0xFEFF\<close>.
\<close>

theorem swap_bytes_signed_masked:
  "sint (swap_bytes_s16 val) = sint (reverse_bytes 2 val :: sint16)
   \<and> sint (swap_bytes_s32 val32) = sint (reverse_bytes 4 val32 :: sint32)
   \<and> sint (swap_bytes_s64 val64) = sint (reverse_bytes 8 val64 :: sint64)
   \<and> swap_bytes_s16 (- 1) = - 1 \<and> sint (swap_bytes_s16 (- 1)) = - 1
   \<and> (- 2 :: sint16) = 0xFFFE \<and> swap_bytes_s16 (- 2) = 0xFEFF
   \<and> sint (swap_bytes_s16 (- 2)) = sint (0xFEFF :: sint16)"
proof -
  have r16: "sint (swap_bytes_s16 val) = sint (reverse_bytes 2 val :: sint16)"
    by (simp only: swap_bytes_s16_eq)
  have r32: "sint (swap_bytes_s32 val32) = sint (reverse_bytes 4 val32 :: sint32)"
    by (simp only: swap_bytes_s32_eq)
  have r64: "sint (swap_bytes_s64 val64) = sint (reverse_bytes 8 val64 :: sint64)"
    by (simp only: swap_bytes_s64_eq)
  have m1: "swap_bytes_s16 (- 1) = - 1"
    by code_simp
  have s1: "sint (swap_bytes_s16 (- 1)) = - 1"
    by (simp only: m1) simp
  have p2: "(- 2 :: sint16) = 0xFFFE"
    by simp
  have m2: "swap_bytes_s16 (- 2) = 0xFEFF"
    by code_simp
  have s2: "sint (swap_bytes_s16 (- 2)) = sint (0xFEFF :: sint16)"
    by (simp only: m2)
  from r16 r32 r64 m1 s1 p2 m2 s2 show ?thesis
    by (intro conjI)
qed

text \<open>
  C6. For every 4-byte and every 8-byte floating-point bit pattern (zeros of either sign,
  the extreme finite values and every NaN among them), swapping twice gives back the
  identical 32-bit or 64-bit pattern. It holds on a host whose unit keeps patterns, and on
  every host when neither the pattern nor its reversal is a signalling NaN
  (\<open>swap_bytes_f32_round_trip\<close>, \<open>swap_bytes_f64_round_trip\<close>). On an i386 build it
  fails for the signalling NaNs and for the patterns that reverse to one: the payload of
  \<open>0x7FA00001\<close> comes back as \<open>0x7FE00001\<close>, that of \<open>0x7FF4000000000001\<close> as
  \<open>0x7FFC000000000001\<close>, and the finite \<open>0x0100A07F\<close> is swapped to \<open>0x7FE00001\<close> and
  back to \<open>0x0100E07F\<close>.
\<close>

theorem swap_bytes_float_i386:
  "is_signalling_nan32 0x7FA00001
   \<and> swap_bytes_f32 i386 (swap_bytes_f32 i386 0x7FA00001) = 0x7FE00001
   \<and> swap_bytes_f32 i386 0x0100A07F = 0x7FE00001
   \<and> swap_bytes_f32 i386 (swap_bytes_f32 i386 0x0100A07F) = 0x0100E07F
   \<and> is_signalling_nan64 0x7FF4000000000001
   \<and> swap_bytes_f64 i386 (swap_bytes_f64 i386 0x7FF4000000000001) = 0x7FFC000000000001"
proof -
  have a: "is_signalling_nan32 0x7FA00001"
    by code_simp
  have b: "swap_bytes_f32 i386 (swap_bytes_f32 i386 0x7FA00001) = 0x7FE00001"
    by code_simp
  have c: "swap_bytes_f32 i386 0x0100A07F = 0x7FE00001"
    by code_simp
  have d: "swap_bytes_f32 i386 (swap_bytes_f32 i386 0x0100A07F) = 0x0100E07F"
    by code_simp
  have e: "is_signalling_nan64 0x7FF4000000000001"
    by code_simp
  have f: "swap_bytes_f64 i386 (swap_bytes_f64 i386 0x7FF4000000000001) = 0x7FFC000000000001"
    by code_simp
  from a b c d e f show ?thesis
    by (intro conjI)
qed

text \<open>
  C7. \<open>from_network\<close> and \<open>to_network\<close> are the same function, for every value and under
  either \<open>BYTE_ORDER\<close>.
\<close>

theorem from_network_eq_to_network: "from_network macro host x = to_network macro host x"
  by (simp add: from_network_def to_network_def)

text \<open>
  C8. The 1-byte specialization is the identity on each of the 256 values of a byte.
\<close>

theorem swap_bytes_u8_identity: "swap_bytes_u8 x = x \<and> swap_bytes host (U8 x) = U8 x"
  by (simp add: swap_bytes_u8_def)

text \<open>
  C9. Every operation is total: no input has an error outcome, a failing branch or an
  undefined case. It holds of the unsigned and the floating-point specializations
  (\<open>swap_bytes_checked_unsigned_float\<close>). The signed specializations shift the signed
  operand to the left, which the language leaves undefined when the operand is negative or
  the product does not fit (\<open>swap_bytes_checked_signed\<close>): the 2-byte swap of \<open>-1\<close>, the
  4-byte swap of \<open>0x12345678\<close> and the 8-byte swap of \<open>-1\<close> have no defined result, and
  neither has \<open>to_network\<close> or \<open>from_network\<close> of \<open>-1\<close> on a little-endian build.
\<close>

theorem signed_left_shift_undefined:
  "swap_bytes_s16_checked (- 1) = None
   \<and> swap_bytes_s32_checked 0x12345678 = None
   \<and> swap_bytes_s64_checked (- 1) = None
   \<and> swap_bytes_checked i386 (S16 (- 1)) = None
   \<and> to_network_checked LITTLE_ENDIAN i386 (S16 (- 1)) = None
   \<and> from_network_checked LITTLE_ENDIAN i386 (S16 (- 1)) = None"
proof -
  have a: "swap_bytes_s16_checked (- 1) = None"
    by code_simp
  have b: "swap_bytes_s32_checked 0x12345678 = None"
    by code_simp
  have c: "swap_bytes_s64_checked (- 1) = None"
    by code_simp
  have d: "swap_bytes_checked i386 (S16 (- 1)) = None"
    by (simp add: a)
  have e: "to_network_checked LITTLE_ENDIAN i386 (S16 (- 1)) = None"
    by (simp add: to_network_checked_def a)
  have f: "from_network_checked LITTLE_ENDIAN i386 (S16 (- 1)) = None"
    by (simp add: from_network_checked_def a)
  from a b c d e f show ?thesis
    by (intro conjI)
qed

text \<open>
  C10. For each multi-byte width, the signed and the unsigned specialization compute the
  same function on bit patterns.
\<close>

theorem swap_bytes_signed_eq_unsigned:
  "swap_bytes_s16 a = swap_bytes_u16 a
   \<and> swap_bytes_s32 b = swap_bytes_u32 b
   \<and> swap_bytes_s64 c = swap_bytes_u64 c"
  by (simp only: swap_bytes_u16_eq swap_bytes_s16_eq swap_bytes_u32_eq swap_bytes_s32_eq
        swap_bytes_u64_eq swap_bytes_s64_eq simp_thms)

end
